theory Spec2Isabelle
  imports Main "HOL-Library.AList" "HOL-Library.Sublist"
begin

section \<open>Python values, exceptions and the two collaborators\<close>

text \<open>
  The manifest of \<^verbatim>\<open>xapktool.py\<close> is a Python dict that is serialised as JSON. Its values
  are modelled by \<open>jv\<close>; a dict is an association list in insertion order, which is the
  order Python keeps and \<^verbatim>\<open>json.dump\<close> writes.
\<close>

datatype jv =
    JNone
  | JInt int
  | JStr string
  | JList "jv list"
  | JDict "(string \<times> jv) list"

type_synonym pydict = "(string \<times> jv) list"

text \<open>
  An exception is its class and the text \<^verbatim>\<open>str(e)\<close> gives. \<open>OtherError\<close> stands for the
  classes the tool itself never raises (\<^verbatim>\<open>OSError\<close> from \<^verbatim>\<open>stat\<close>, whatever androguard
  raises). Only subclasses of \<^verbatim>\<open>Exception\<close> are modelled.
\<close>

datatype exn_class = ValueError | FileNotFoundError | RuntimeError | AttributeError | OtherError

datatype exn = Exn exn_class string

fun str_of_exn :: "exn \<Rightarrow> string" where
  "str_of_exn (Exn c m) = m"

definition and_then :: "exn + 'a \<Rightarrow> ('a \<Rightarrow> exn + 'b) \<Rightarrow> exn + 'b" where
  "and_then r f = (case r of Inl e \<Rightarrow> Inl e | Inr v \<Rightarrow> f v)"

text \<open>
  \<^verbatim>\<open>androguard.core.apk.APK\<close> is not part of the repository: an opened package is the
  record of what each query the tool calls returns or raises. The queries are taken to be
  deterministic (a second call gives what the first gave).
\<close>

record APK_obj =
  get_package :: "exn + string"
  get_app_name :: "exn + jv"
  get_androidversion_code :: "exn + jv"
  get_androidversion_name :: "exn + jv"
  get_min_sdk_version :: "exn + jv"
  get_target_sdk_version :: "exn + jv"
  get_permissions :: "exn + jv"
  get_app_icon :: "int \<Rightarrow> exn + jv"
  get_file :: "jv \<Rightarrow> exn + string"

text \<open>
  The file system as \<^verbatim>\<open>self.folder\<close> sees it: \<open>is_dir env\<close> is
  \<^verbatim>\<open>self.folder.is_dir()\<close>. A \<^verbatim>\<open>Path\<close> that \<^verbatim>\<open>glob\<close> yields is represented by its final
  component, so \<^verbatim>\<open>p.name\<close> is the string itself; \<open>glob env pat\<close> lists the matches of
  the pattern in enumeration order, \<open>stat env p\<close> is \<^verbatim>\<open>p.stat().st_size\<close> or the
  exception it raises, and \<open>APK env p\<close> is the constructor \<^verbatim>\<open>APK(p)\<close> applied to the value
  of \<^verbatim>\<open>self.apk_src\<close>.
\<close>

record env =
  is_dir :: bool
  glob :: "string \<Rightarrow> string list"
  stat :: "string \<Rightarrow> exn + int"
  APK :: "string option \<Rightarrow> exn + APK_obj"

section \<open>String and path helpers of the Python library\<close>

text \<open>\<^verbatim>\<open>s.split(sep)\<close> for a one-character separator: never the empty list.\<close>

fun str_split :: "char \<Rightarrow> string \<Rightarrow> string list" where
  "str_split sep [] = [[]]"
| "str_split sep (c # cs) =
     (if c = sep then [] # str_split sep cs
      else (case str_split sep cs of
              [] \<Rightarrow> [[c]]
            | seg # segs \<Rightarrow> (c # seg) # segs))"

text \<open>\<^verbatim>\<open>sep.join(xs)\<close>.\<close>

fun str_join :: "string \<Rightarrow> string list \<Rightarrow> string" where
  "str_join sep [] = []"
| "str_join sep [x] = x"
| "str_join sep (x # y # ys) = x @ sep @ str_join sep (y # ys)"

text \<open>\<^verbatim>\<open>s.rfind(c)\<close>, with \<open>None\<close> for Python's \<open>-1\<close>.\<close>

fun rfind :: "char \<Rightarrow> string \<Rightarrow> nat option" where
  "rfind c [] = None"
| "rfind c (x # xs) =
     (case rfind c xs of
        Some i \<Rightarrow> Some (Suc i)
      | None \<Rightarrow> (if x = c then Some 0 else None))"

text \<open>
  \<^verbatim>\<open>PurePath.stem\<close> of a final component, as pathlib defines it up to Python 3.13:
  \<^verbatim>\<open>i = name.rfind('.'); name[:i] if 0 < i < len(name) - 1 else name\<close>.
\<close>

definition stem :: "string \<Rightarrow> string" where
  "stem name =
     (case rfind (CHR ''.'') name of
        None \<Rightarrow> name
      | Some i \<Rightarrow> (if 0 < i \<and> i + 1 < length name then take i name else name))"

section \<open>The XAPK object\<close>

text \<open>
  The fields of lines 12 to 18. \<open>folder\<close> is the text of \<^verbatim>\<open>self.folder\<close>, which only the
  message of line 24 uses; the icon is the byte string \<^verbatim>\<open>get_file\<close> returned.
\<close>

record xapk =
  folder :: string
  apk_src :: "string option"
  obb_files :: "string list"
  split_config_files :: "string list"
  apk :: "APK_obj option"
  manifest :: "pydict option"
  icon :: "string option"

text \<open>A method call on \<^verbatim>\<open>self.apk\<close>, which is \<^verbatim>\<open>None\<close> until \<^verbatim>\<open>initialize\<close> sets it.\<close>

definition none_has_no_attribute :: "string \<Rightarrow> exn" where
  "none_has_no_attribute attr =
     Exn AttributeError
       ([CHR 0x27] @ ''NoneType'' @ [CHR 0x27] @ '' object has no attribute '' @
        [CHR 0x27] @ attr @ [CHR 0x27])"

definition call :: "APK_obj option \<Rightarrow> string \<Rightarrow> (APK_obj \<Rightarrow> exn + 'a) \<Rightarrow> exn + 'a" where
  "call obj attr query =
     (case obj of None \<Rightarrow> Inl (none_has_no_attribute attr) | Some a \<Rightarrow> query a)"

section \<open>Building the manifest (lines 57 to 105)\<close>

text \<open>
  The loop of lines 63 to 71 over \<^verbatim>\<open>self.obb_files\<close>, with the running \<^verbatim>\<open>total_size\<close>
  and \<^verbatim>\<open>obb_info\<close> as accumulators. Each round stats the file, then formats the two
  paths with \<^verbatim>\<open>self.apk.get_package()\<close> and \<^verbatim>\<open>obb_file.name\<close>.
\<close>

fun obb_loop ::
  "env \<Rightarrow> APK_obj option \<Rightarrow> string list \<Rightarrow> int \<Rightarrow> jv list \<Rightarrow> exn + (int \<times> jv list)" where
  "obb_loop env obj [] total_size obb_info = Inr (total_size, obb_info)"
| "obb_loop env obj (obb_file # rest) total_size obb_info =
     and_then (stat env obb_file) (\<lambda>obb_size.
     and_then (call obj ''get_package'' get_package) (\<lambda>pkg.
       obb_loop env obj rest (total_size + obb_size)
         (obb_info @
          [JDict [(''file'', JStr (''Android/obb/'' @ pkg @ ''/'' @ obb_file)),
                  (''install_location'', JStr ''EXTERNAL_STORAGE''),
                  (''install_path'', JStr (''Android/obb/'' @ pkg @ ''/'' @ obb_file))]])))"

text \<open>
  The loop of lines 75 to 81 over \<^verbatim>\<open>self.split_config_files\<close>, with \<^verbatim>\<open>total_size\<close>,
  \<^verbatim>\<open>split_apks_info\<close> and \<^verbatim>\<open>split_configs_info\<close> as accumulators.
\<close>

fun split_loop ::
  "env \<Rightarrow> string list \<Rightarrow> int \<Rightarrow> jv list \<Rightarrow> jv list \<Rightarrow> exn + (int \<times> jv list \<times> jv list)" where
  "split_loop env [] total_size split_apks_info split_configs_info =
     Inr (total_size, split_apks_info, split_configs_info)"
| "split_loop env (split_confg_file # rest) total_size split_apks_info split_configs_info =
     and_then (stat env split_confg_file) (\<lambda>split_confg_size.
       (let split_config_name = stem split_confg_file in
        split_loop env rest (total_size + split_confg_size)
          (split_apks_info @
           [JDict [(''file'', JStr split_confg_file), (''id'', JStr split_config_name)]])
          (split_configs_info @ [JStr split_config_name])))"

text \<open>
  The body of the \<^verbatim>\<open>try\<close> (lines 59 to 103). The dict literal of lines 83 to 94
  evaluates its values in order, so the first query that raises decides the exception;
  \<^verbatim>\<open>manifest[k] = v\<close> is \<open>AList.update\<close> (replace in place, or append).
\<close>

definition make_manifest_body :: "env \<Rightarrow> xapk \<Rightarrow> exn + pydict" where
  "make_manifest_body env self =
     and_then (case apk_src self of
                 None \<Rightarrow> Inl (none_has_no_attribute ''stat'')
               | Some p \<Rightarrow> stat env p) (\<lambda>apk_size.
     and_then (obb_loop env (apk self) (obb_files self) apk_size []) (\<lambda>(total_size, obb_info).
     and_then (call (apk self) ''get_package'' get_package) (\<lambda>base_pkg.
     and_then (split_loop env (split_config_files self) total_size
                 [JDict [(''file'', JStr (base_pkg @ ''.apk'')), (''id'', JStr ''base'')]] [])
       (\<lambda>(total_size, split_apks_info, split_configs_info).
     and_then (call (apk self) ''get_package'' get_package) (\<lambda>package_name.
     and_then (call (apk self) ''get_app_name'' get_app_name) (\<lambda>app_name.
     and_then (call (apk self) ''get_androidversion_code'' get_androidversion_code) (\<lambda>version_code.
     and_then (call (apk self) ''get_androidversion_name'' get_androidversion_name) (\<lambda>version_name.
     and_then (call (apk self) ''get_min_sdk_version'' get_min_sdk_version) (\<lambda>min_sdk_version.
     and_then (call (apk self) ''get_target_sdk_version'' get_target_sdk_version) (\<lambda>target_sdk_version.
     and_then (call (apk self) ''get_permissions'' get_permissions) (\<lambda>permissions.
       (let manifest0 =
              [(''xapk_version'', JInt 2),
               (''package_name'', JStr package_name),
               (''name'', app_name),
               (''version_code'', version_code),
               (''version_name'', version_name),
               (''min_sdk_version'', min_sdk_version),
               (''target_sdk_version'', target_sdk_version),
               (''permissions'', permissions),
               (''total_size'', JInt total_size),
               (''split_apks'', JList split_apks_info)];
            manifest1 =
              (if length split_configs_info \<noteq> 0
               then AList.update ''split_configs'' (JList split_configs_info) manifest0
               else manifest0);
            manifest2 =
              (if length obb_info \<noteq> 0
               then AList.update ''expansions'' (JList obb_info) manifest1
               else manifest1)
        in Inr manifest2))))))))))))"

text \<open>Lines 104 and 105: every exception of the body is wrapped with the stage label.\<close>

definition make_manifest :: "env \<Rightarrow> xapk \<Rightarrow> exn + pydict" where
  "make_manifest env self =
     (case make_manifest_body env self of
        Inl e \<Rightarrow> Inl (Exn RuntimeError (''Manifest creation: '' @ str_of_exn e))
      | Inr m \<Rightarrow> Inr m)"

section \<open>Initialisation (lines 21 to 55) and the constructor\<close>

text \<open>
  The verification loop of lines 48 to 51. The source enumerates \<^verbatim>\<open>self.obb_files\<close> and,
  in round \<open>i\<close>, builds the list of the split stems of all the files and takes its
  \<open>i\<close>-th element; the indices are the third argument.
\<close>

fun verify_loop :: "string list \<Rightarrow> string \<Rightarrow> nat list \<Rightarrow> exn + unit" where
  "verify_loop obbs apk_package_name [] = Inr ()"
| "verify_loop obbs apk_package_name (i # rest) =
     (let obb_package_name =
            str_join ''.'' (map (\<lambda>obb. drop 2 (str_split (CHR ''.'') (stem obb))) obbs ! i)
      in if obb_package_name \<noteq> apk_package_name
         then Inl (Exn ValueError ''The APK and OBB files do not belong to the same app.'')
         else verify_loop obbs apk_package_name rest)"

text \<open>
  Lines 23 to 37: the directory is scanned and the files classified. An exception leaves
  the object as the assignments made so far have left it, so a failure is the exception
  together with that state. The truth value of a \<^verbatim>\<open>Path\<close> is always true, so
  \<^verbatim>\<open>not self.apk_src\<close> holds for \<^verbatim>\<open>None\<close> only.
\<close>

definition initialize_scan :: "env \<Rightarrow> xapk \<Rightarrow> (exn \<times> xapk) + xapk" where
  "initialize_scan env self =
     (if \<not> is_dir env
      then Inl (Exn ValueError
                  (''The specified folder '' @ [CHR 0x27] @ folder self @ [CHR 0x27] @
                   '' does not exist or is not a directory.''), self)
      else
        (let self1 = self\<lparr>apk_src := fold (\<lambda>x src. Some x) (glob env ''base.apk'') (apk_src self)\<rparr>
         in if apk_src self1 = None
            then Inl (Exn FileNotFoundError ''No APK file found in the specified folder.'', self1)
            else
              (let self2 = self1\<lparr>obb_files := obb_files self1 @ glob env ''*.obb''\<rparr>;
                   self3 = self2\<lparr>split_config_files :=
                                   split_config_files self2 @ glob env ''config.*.apk''\<rparr>;
                   self4 = self3\<lparr>split_config_files :=
                                   split_config_files self3 @ glob env ''asset.*.apk''\<rparr>
               in if obb_files self4 = [] \<and> split_config_files self4 = []
                  then Inl (Exn FileNotFoundError
                              ''No OBB and split files found in the specified directory.'', self4)
                  else Inr self4)))"

text \<open>
  Lines 39 to 52: the package is opened, the manifest is made and stored, the icon is
  fetched (an exception there only skips the assignment), and then the expansion files
  are compared with the package name. Console output is not modelled.
\<close>

definition initialize_inspect :: "env \<Rightarrow> xapk \<Rightarrow> (exn \<times> xapk) + xapk" where
  "initialize_inspect env self =
     (case APK env (apk_src self) of
        Inl e \<Rightarrow> Inl (e, self)
      | Inr a \<Rightarrow>
          (let self1 = self\<lparr>apk := Some a\<rparr> in
           case make_manifest env self1 of
             Inl e \<Rightarrow> Inl (e, self1)
           | Inr m \<Rightarrow>
               (let self2 = self1\<lparr>manifest := Some m\<rparr>;
                    self3 = (case and_then (get_app_icon a 65534) (get_file a) of
                               Inl e \<Rightarrow> self2
                             | Inr bytes \<Rightarrow> self2\<lparr>icon := Some bytes\<rparr>)
                in case get_package a of
                     Inl e \<Rightarrow> Inl (e, self3)
                   | Inr apk_package_name \<Rightarrow>
                       (case verify_loop (obb_files self3) apk_package_name
                               [0..<length (obb_files self3)] of
                          Inl e \<Rightarrow> Inl (e, self3)
                        | Inr u \<Rightarrow> Inr self3))))"

text \<open>Lines 54 and 55 wrap every exception of the two parts with the stage label.\<close>

definition initialize :: "env \<Rightarrow> xapk \<Rightarrow> (exn \<times> xapk) + xapk" where
  "initialize env self =
     (case (case initialize_scan env self of
              Inl failure \<Rightarrow> Inl failure
            | Inr self1 \<Rightarrow> initialize_inspect env self1) of
        Inl (e, self') \<Rightarrow> Inl (Exn RuntimeError (''Initialization: '' @ str_of_exn e), self')
      | Inr self' \<Rightarrow> Inr self')"

text \<open>
  \<^verbatim>\<open>XAPK(folder)\<close>, lines 11 to 19: the fields are set (lines 12 to 18) and the object
  is initialised; when \<^verbatim>\<open>initialize\<close> raises, the caller gets the exception and no
  object.
\<close>

definition init_fields :: "string \<Rightarrow> xapk" where
  "init_fields fld =
     \<lparr>folder = fld, apk_src = None, obb_files = [], split_config_files = [],
      apk = None, manifest = None, icon = None\<rparr>"

definition XAPK :: "env \<Rightarrow> string \<Rightarrow> exn + xapk" where
  "XAPK env fld =
     (case initialize env (init_fields fld) of
        Inl (e, self') \<Rightarrow> Inl e
      | Inr self' \<Rightarrow> Inr self')"

text \<open>
  The value of \<^verbatim>\<open>obb_package_name\<close> in line 49 for one file: the segments of the stem
  after the first two, joined with dots again.
\<close>

definition obb_package_name :: "string \<Rightarrow> string" where
  "obb_package_name obb = str_join ''.'' (drop 2 (str_split (CHR ''.'') (stem obb)))"

section \<open>Example directories\<close>

text \<open>
  A package \<^verbatim>\<open>com.example.app\<close> whose queries all answer, and variants of it: one whose
  icon cannot be read and one whose application name cannot be read.
\<close>

definition example_apk :: APK_obj where
  "example_apk =
     \<lparr>get_package = Inr ''com.example.app'',
      get_app_name = Inr (JStr ''Example''),
      get_androidversion_code = Inr (JStr ''1''),
      get_androidversion_name = Inr (JStr ''1.0''),
      get_min_sdk_version = Inr (JStr ''21''),
      get_target_sdk_version = Inr (JStr ''33''),
      get_permissions = Inr (JList [JStr ''android.permission.INTERNET'']),
      get_app_icon = (\<lambda>max_dpi. Inr (JStr ''res/icon.png'')),
      get_file = (\<lambda>f. Inr ''PNG'')\<rparr>"

definition no_icon_apk :: APK_obj where
  "no_icon_apk = example_apk\<lparr>get_file := (\<lambda>f. Inl (Exn OtherError ''res/icon.png''))\<rparr>"

definition no_name_apk :: APK_obj where
  "no_name_apk = example_apk\<lparr>get_app_name := Inl (Exn OtherError ''no label'')\<rparr>"

text \<open>
  A directory that holds \<^verbatim>\<open>base.apk\<close> (1000 bytes, opened as the given package), the
  given expansion files (2000 bytes each) and the given split packages, all of the
  \<^verbatim>\<open>config.*.apk\<close> kind (300 bytes each).
\<close>

definition example_dir :: "string list \<Rightarrow> string list \<Rightarrow> APK_obj \<Rightarrow> env" where
  "example_dir obbs splits a =
     \<lparr>is_dir = True,
      glob = (\<lambda>pat. if pat = ''base.apk'' then [''base.apk'']
                   else if pat = ''*.obb'' then obbs
                   else if pat = ''config.*.apk'' then splits
                   else []),
      stat = (\<lambda>p. if p = ''base.apk'' then Inr 1000
                 else if p \<in> set obbs then Inr 2000
                 else if p \<in> set splits then Inr 300
                 else Inl (Exn OtherError ''[Errno 2] No such file or directory'')),
      APK = (\<lambda>p. if p = Some ''base.apk'' then Inr a
                else Inl (Exn OtherError ''not a package''))\<rparr>"

definition example_env :: env where
  "example_env =
     example_dir [''main.123.com.example.app.obb''] [''config.arm64_v8a.apk''] example_apk"

definition example_self :: xapk where
  "example_self =
     \<lparr>folder = ''app'', apk_src = Some ''base.apk'',
      obb_files = [''main.123.com.example.app.obb''],
      split_config_files = [''config.arm64_v8a.apk''],
      apk = Some example_apk, manifest = None, icon = None\<rparr>"

definition example_manifest :: pydict where
  "example_manifest =
     [(''xapk_version'', JInt 2),
      (''package_name'', JStr ''com.example.app''),
      (''name'', JStr ''Example''),
      (''version_code'', JStr ''1''),
      (''version_name'', JStr ''1.0''),
      (''min_sdk_version'', JStr ''21''),
      (''target_sdk_version'', JStr ''33''),
      (''permissions'', JList [JStr ''android.permission.INTERNET'']),
      (''total_size'', JInt 3300),
      (''split_apks'',
         JList [JDict [(''file'', JStr ''com.example.app.apk''), (''id'', JStr ''base'')],
                JDict [(''file'', JStr ''config.arm64_v8a.apk''),
                       (''id'', JStr ''config.arm64_v8a'')]]),
      (''split_configs'', JList [JStr ''config.arm64_v8a'']),
      (''expansions'',
         JList [JDict [(''file'',
                        JStr ''Android/obb/com.example.app/main.123.com.example.app.obb''),
                       (''install_location'', JStr ''EXTERNAL_STORAGE''),
                       (''install_path'',
                        JStr ''Android/obb/com.example.app/main.123.com.example.app.obb'')]])]"

text \<open>
  The same directory with an expansion file of another application and no split
  package, the manifest \<^verbatim>\<open>make_manifest\<close> builds there, and the variant in which the
  expansion file is a dangling link, so that \<^verbatim>\<open>stat\<close> raises.
\<close>

definition mismatch_env :: env where
  "mismatch_env = example_dir [''main.123.com.example.other.obb''] [] example_apk"

definition mismatch_manifest :: pydict where
  "mismatch_manifest =
     [(''xapk_version'', JInt 2),
      (''package_name'', JStr ''com.example.app''),
      (''name'', JStr ''Example''),
      (''version_code'', JStr ''1''),
      (''version_name'', JStr ''1.0''),
      (''min_sdk_version'', JStr ''21''),
      (''target_sdk_version'', JStr ''33''),
      (''permissions'', JList [JStr ''android.permission.INTERNET'']),
      (''total_size'', JInt 3000),
      (''split_apks'',
         JList [JDict [(''file'', JStr ''com.example.app.apk''), (''id'', JStr ''base'')]]),
      (''expansions'',
         JList [JDict [(''file'',
                        JStr ''Android/obb/com.example.app/main.123.com.example.other.obb''),
                       (''install_location'', JStr ''EXTERNAL_STORAGE''),
                       (''install_path'',
                        JStr ''Android/obb/com.example.app/main.123.com.example.other.obb'')]])]"

definition broken_obb_env :: env where
  "broken_obb_env =
     mismatch_env\<lparr>stat := (\<lambda>p. if p = ''base.apk'' then Inr 1000
                                else Inl (Exn OtherError ''[Errno 2] No such file or directory''))\<rparr>"

text \<open>A directory with nothing but \<^verbatim>\<open>base.apk\<close>.\<close>

definition bare_env :: env where
  "bare_env = example_dir [] [] example_apk"

text \<open>The first directory again, with the package that has no readable icon or name.\<close>

definition no_icon_env :: env where
  "no_icon_env =
     example_dir [''main.123.com.example.app.obb''] [''config.arm64_v8a.apk''] no_icon_apk"

definition no_name_env :: env where
  "no_name_env =
     example_dir [''main.123.com.example.app.obb''] [''config.arm64_v8a.apk''] no_name_apk"

section \<open>Auxiliary facts about strings and the loops\<close>

lemma str_split_not_Nil: "str_split sep s \<noteq> []"
  by (induction s) (auto split: list.splits)

lemma str_join_split: "str_join [sep] (str_split sep s) = s"
proof (induction s)
  case Nil
  then show ?case by simp
next
  case (Cons c cs)
  obtain seg segs where segs: "str_split sep cs = seg # segs"
    using str_split_not_Nil [of sep cs] by (cases "str_split sep cs") auto
  with Cons show ?case
    by (cases segs) auto
qed

lemma str_split_append:
  "sep \<notin> set a \<Longrightarrow> str_split sep (a @ sep # rest) = a # str_split sep rest"
  by (induction a) auto

lemma rfind_None: "c \<notin> set xs \<Longrightarrow> rfind c xs = None"
  by (induction xs) auto

lemma rfind_last: "c \<notin> set ext \<Longrightarrow> rfind c (xs @ c # ext) = Some (length xs)"
  by (induction xs) (auto simp: rfind_None)

lemma stem_strips_extension:
  assumes "xs \<noteq> []" and "ext \<noteq> []" and "CHR ''.'' \<notin> set ext"
  shows "stem (xs @ CHR ''.'' # ext) = xs"
  using assms by (simp add: stem_def rfind_last)

lemma conventional_obb_package_name:
  assumes "CHR ''.'' \<notin> set a" and "CHR ''.'' \<notin> set b"
  shows "obb_package_name (a @ ''.'' @ b @ ''.'' @ pkg @ ''.obb'') = pkg"
proof -
  have "stem ((a @ ''.'' @ b @ ''.'' @ pkg) @ CHR ''.'' # ''obb'') = a @ ''.'' @ b @ ''.'' @ pkg"
    by (rule stem_strips_extension) simp_all
  then have "stem (a @ ''.'' @ b @ ''.'' @ pkg @ ''.obb'') = a @ CHR ''.'' # b @ CHR ''.'' # pkg"
    by simp
  with assms show ?thesis
    by (simp add: obb_package_name_def str_split_append str_join_split [of "CHR ''.''", simplified])
qed

lemma and_then_Inr_iff: "and_then r f = Inr y \<longleftrightarrow> (\<exists>v. r = Inr v \<and> f v = Inr y)"
  by (cases r) (simp_all add: and_then_def)

lemma obb_loop_total:
  "obb_loop env obj fs t info = Inr (t', info') \<Longrightarrow> \<forall>p\<in>set fs. stat env p = Inr (sz p)
     \<Longrightarrow> t' = t + sum_list (map sz fs)"
proof (induction fs arbitrary: t info)
  case Nil
  then show ?case by simp
next
  case (Cons f fs)
  from Cons.prems(2) have f: "stat env f = Inr (sz f)" by simp
  from Cons.prems(1) f obtain info1 where
    "obb_loop env obj fs (t + sz f) info1 = Inr (t', info')"
    by (auto simp: and_then_Inr_iff)
  with Cons.IH Cons.prems(2) have "t' = t + sz f + sum_list (map sz fs)" by simp
  then show ?case by simp
qed

lemma obb_loop_info:
  "obb_loop env obj fs t info = Inr (t', info') \<Longrightarrow> call obj ''get_package'' get_package = Inr pkg
     \<Longrightarrow> info' = info @ map (\<lambda>f. JDict [(''file'', JStr (''Android/obb/'' @ pkg @ ''/'' @ f)),
                  (''install_location'', JStr ''EXTERNAL_STORAGE''),
                  (''install_path'', JStr (''Android/obb/'' @ pkg @ ''/'' @ f))]) fs"
proof (induction fs arbitrary: t info)
  case Nil
  then show ?case by simp
next
  case (Cons f fs)
  from Cons.prems obtain t1 where
    "obb_loop env obj fs t1
       (info @ [JDict [(''file'', JStr (''Android/obb/'' @ pkg @ ''/'' @ f)),
                  (''install_location'', JStr ''EXTERNAL_STORAGE''),
                  (''install_path'', JStr (''Android/obb/'' @ pkg @ ''/'' @ f))]]) = Inr (t', info')"
    by (auto simp: and_then_Inr_iff)
  from Cons.IH [OF this Cons.prems(2)] show ?case by simp
qed

lemma split_loop_total:
  "split_loop env fs t apks cfgs = Inr (t', apks', cfgs') \<Longrightarrow> \<forall>p\<in>set fs. stat env p = Inr (sz p)
     \<Longrightarrow> t' = t + sum_list (map sz fs)"
proof (induction fs arbitrary: t apks cfgs)
  case Nil
  then show ?case by simp
next
  case (Cons f fs)
  from Cons.prems(2) have f: "stat env f = Inr (sz f)" by simp
  from Cons.prems(1) f obtain apks1 cfgs1 where
    "split_loop env fs (t + sz f) apks1 cfgs1 = Inr (t', apks', cfgs')"
    by (auto simp: and_then_Inr_iff Let_def)
  with Cons.IH Cons.prems(2) have "t' = t + sz f + sum_list (map sz fs)" by simp
  then show ?case by simp
qed

lemma split_loop_info:
  "split_loop env fs t apks cfgs = Inr (t', apks', cfgs') \<Longrightarrow>
     apks' = apks @ map (\<lambda>f. JDict [(''file'', JStr f), (''id'', JStr (stem f))]) fs \<and>
     cfgs' = cfgs @ map (\<lambda>f. JStr (stem f)) fs"
proof (induction fs arbitrary: t apks cfgs)
  case Nil
  then show ?case by simp
next
  case (Cons f fs)
  from Cons.prems obtain t1 where
    "split_loop env fs t1 (apks @ [JDict [(''file'', JStr f), (''id'', JStr (stem f))]])
       (cfgs @ [JStr (stem f)]) = Inr (t', apks', cfgs')"
    by (auto simp: and_then_Inr_iff Let_def)
  from Cons.IH [OF this] show ?case by simp
qed

lemma verify_loop_indices:
  "\<forall>i\<in>set idx. i < length obbs \<Longrightarrow>
   verify_loop obbs pkg idx =
     (if \<forall>i\<in>set idx. obb_package_name (obbs ! i) = pkg then Inr ()
      else Inl (Exn ValueError ''The APK and OBB files do not belong to the same app.''))"
  by (induction idx) (simp_all add: obb_package_name_def Let_def)

lemma verify_loop_all:
  "verify_loop obbs pkg [0..<length obbs] =
     (if \<forall>f\<in>set obbs. obb_package_name f = pkg then Inr ()
      else Inl (Exn ValueError ''The APK and OBB files do not belong to the same app.''))"
  by (subst verify_loop_indices) (auto simp: all_set_conv_all_nth)


lemma call_Inr_iff: "call obj attr q = Inr v \<longleftrightarrow> (\<exists>a. obj = Some a \<and> q a = Inr v)"
  by (cases obj) (simp_all add: call_def)

lemma make_manifest_body_InrD:
  assumes "make_manifest_body env self = Inr m"
  shows "\<exists>src apk_size t1 obb_info a pkg t2 apks cfgs nm vc vn mn tg pm.
    apk_src self = Some src \<and> stat env src = Inr apk_size \<and>
    obb_loop env (apk self) (obb_files self) apk_size [] = Inr (t1, obb_info) \<and>
    apk self = Some a \<and> get_package a = Inr pkg \<and>
    split_loop env (split_config_files self) t1
      [JDict [(''file'', JStr (pkg @ ''.apk'')), (''id'', JStr ''base'')]] [] = Inr (t2, apks, cfgs) \<and>
    get_app_name a = Inr nm \<and> get_androidversion_code a = Inr vc \<and>
    get_androidversion_name a = Inr vn \<and> get_min_sdk_version a = Inr mn \<and>
    get_target_sdk_version a = Inr tg \<and> get_permissions a = Inr pm \<and>
    m = [(''xapk_version'', JInt 2), (''package_name'', JStr pkg), (''name'', nm),
         (''version_code'', vc), (''version_name'', vn), (''min_sdk_version'', mn),
         (''target_sdk_version'', tg), (''permissions'', pm), (''total_size'', JInt t2),
         (''split_apks'', JList apks)] @
        (if cfgs = [] then [] else [(''split_configs'', JList cfgs)]) @
        (if obb_info = [] then [] else [(''expansions'', JList obb_info)])"
  using assms unfolding make_manifest_body_def
  apply (clarsimp simp: and_then_Inr_iff call_Inr_iff split: option.splits)
  apply (clarsimp simp: Let_def split: if_splits)
    apply blast+
  done

lemma make_manifest_Inr_iff:
  "make_manifest env self = Inr m \<longleftrightarrow> make_manifest_body env self = Inr m"
  by (simp add: make_manifest_def split: sum.splits)

lemma obb_loop_returns:
  assumes "\<forall>p\<in>set fs. \<exists>n. stat env p = Inr n" and "get_package a = Inr pkg"
  shows "\<exists>r. obb_loop env (Some a) fs t info = Inr r"
  using assms
proof (induction fs arbitrary: t info)
  case Nil
  then show ?case by simp
next
  case (Cons f fs)
  then obtain n where "stat env f = Inr n" by auto
  with Cons show ?case by (simp add: and_then_def call_def)
qed

lemma split_loop_returns:
  assumes "\<forall>p\<in>set fs. \<exists>n. stat env p = Inr n"
  shows "\<exists>r. split_loop env fs t apks cfgs = Inr r"
  using assms
proof (induction fs arbitrary: t apks cfgs)
  case Nil
  then show ?case by simp
next
  case (Cons f fs)
  then obtain n where "stat env f = Inr n" by auto
  with Cons show ?case by (simp add: and_then_def Let_def)
qed

lemma make_manifest_returns:
  assumes "apk_src self = Some base" and "apk self = Some a"
    and "\<forall>p\<in>set (base # obb_files self @ split_config_files self). \<exists>n. stat env p = Inr n"
    and "get_package a = Inr pkg" and "get_app_name a = Inr nm"
    and "get_androidversion_code a = Inr vc" and "get_androidversion_name a = Inr vn"
    and "get_min_sdk_version a = Inr mn" and "get_target_sdk_version a = Inr tg"
    and "get_permissions a = Inr pm"
  shows "\<exists>m. make_manifest env self = Inr m"
proof -
  from assms(3) obtain n where n: "stat env base = Inr n" by auto
  from assms(3) have "\<forall>p\<in>set (obb_files self). \<exists>n. stat env p = Inr n" by simp
  from obb_loop_returns [OF this assms(4)] obtain t1 info where
    l1: "obb_loop env (Some a) (obb_files self) n [] = Inr (t1, info)" by fastforce
  from assms(3) have "\<forall>p\<in>set (split_config_files self). \<exists>n. stat env p = Inr n" by simp
  from split_loop_returns [OF this] obtain t2 apks cfgs where
    l2: "split_loop env (split_config_files self) t1
           [JDict [(''file'', JStr (pkg @ ''.apk'')), (''id'', JStr ''base'')]] [] =
         Inr (t2, apks, cfgs)" by (metis prod_cases3)
  from assms(1,2,4-10) n l1 l2 show ?thesis
    by (simp add: make_manifest_def make_manifest_body_def and_then_def call_def Let_def)
qed

lemma example_make_manifest: "make_manifest example_env example_self = Inr example_manifest"
  by (simp add: make_manifest_def make_manifest_body_def example_env_def example_dir_def
      example_self_def example_apk_def example_manifest_def and_then_def call_def stem_def
      Let_def)

section \<open>Auxiliary facts about initialisation\<close>

lemma initialize_after_scan:
  assumes "initialize_scan env self = Inr self1"
  shows "initialize env self =
           (case initialize_inspect env self1 of
              Inl (e, self') \<Rightarrow> Inl (Exn RuntimeError (''Initialization: '' @ str_of_exn e), self')
            | Inr self' \<Rightarrow> Inr self')"
  using assms by (simp add: initialize_def)

lemma initialize_scan_failure:
  assumes "initialize_scan env self = Inl (e, self')"
  shows "initialize env self = Inl (Exn RuntimeError (''Initialization: '' @ str_of_exn e), self')"
  using assms by (simp add: initialize_def)

lemma initialize_scan_InrD:
  assumes "initialize_scan env self = Inr self1"
  shows "obb_files self1 = obb_files self @ glob env ''*.obb'' \<and>
         split_config_files self1 =
           split_config_files self @ glob env ''config.*.apk'' @ glob env ''asset.*.apk'' \<and>
         apk_src self1 = fold (\<lambda>x src. Some x) (glob env ''base.apk'') (apk_src self) \<and>
         apk_src self1 \<noteq> None \<and>
         apk self1 = apk self \<and> manifest self1 = manifest self \<and> icon self1 = icon self \<and>
         folder self1 = folder self"
  using assms by (auto simp: initialize_scan_def Let_def split: if_splits)

lemma fold_last_Some:
  "fold (\<lambda>x src. Some x) xs init = (if xs = [] then init else Some (last xs))"
  by (induction xs arbitrary: init) auto

lemma initialize_inspect_verified:
  assumes "APK env (apk_src self1) = Inr a"
    and "make_manifest env (self1\<lparr>apk := Some a\<rparr>) = Inr m"
    and "get_package a = Inr pkg"
  shows "initialize_inspect env self1 =
           (let self3 = (case and_then (get_app_icon a 65534) (get_file a) of
                           Inl e \<Rightarrow> self1\<lparr>apk := Some a, manifest := Some m\<rparr>
                         | Inr bytes \<Rightarrow> self1\<lparr>apk := Some a, manifest := Some m, icon := Some bytes\<rparr>)
            in if \<forall>f\<in>set (obb_files self1). obb_package_name f = pkg then Inr self3
               else Inl (Exn ValueError ''The APK and OBB files do not belong to the same app.'',
                         self3))"
  using assms
  by (simp add: initialize_inspect_def Let_def verify_loop_all split: sum.splits)

lemma make_manifest_package:
  assumes "make_manifest env self = Inr m" and "apk self = Some a"
  shows "\<exists>pkg. get_package a = Inr pkg"
  using make_manifest_body_InrD [of env self m] assms
  by (auto simp: make_manifest_Inr_iff)

lemma make_manifest_queries:
  assumes "make_manifest env self = Inr m" and "apk self = Some a"
  shows "\<not> isl (get_package a) \<and> \<not> isl (get_app_name a) \<and> \<not> isl (get_androidversion_code a) \<and>
         \<not> isl (get_androidversion_name a) \<and> \<not> isl (get_min_sdk_version a) \<and>
         \<not> isl (get_target_sdk_version a) \<and> \<not> isl (get_permissions a)"
  using make_manifest_body_InrD [of env self m] assms
  by (auto simp: make_manifest_Inr_iff)

lemma initialize_mismatch:
  assumes "initialize_scan env self = Inr self1"
    and "APK env (apk_src self1) = Inr a"
    and "make_manifest env (self1\<lparr>apk := Some a\<rparr>) = Inr m"
    and "get_package a = Inr pkg"
    and "f \<in> set (obb_files self1)" and "obb_package_name f \<noteq> pkg"
  shows "\<exists>self'. initialize env self =
           Inl (Exn RuntimeError
                  ''Initialization: The APK and OBB files do not belong to the same app.'', self') \<and>
           manifest self' = Some m \<and> apk self' = Some a"
proof -
  from assms(5,6) have "\<not> (\<forall>f\<in>set (obb_files self1). obb_package_name f = pkg)" by blast
  with initialize_inspect_verified [OF assms(2,3,4)] initialize_after_scan [OF assms(1)]
  show ?thesis by (auto simp: Let_def split: sum.splits)
qed

lemma mismatch_scan:
  "initialize_scan mismatch_env (init_fields ''app'') =
     Inr \<lparr>folder = ''app'', apk_src = Some ''base.apk'',
          obb_files = [''main.123.com.example.other.obb''], split_config_files = [],
          apk = None, manifest = None, icon = None\<rparr>"
  by (simp add: initialize_scan_def init_fields_def mismatch_env_def example_dir_def Let_def)

lemma mismatch_make_manifest:
  "make_manifest mismatch_env
     \<lparr>folder = ''app'', apk_src = Some ''base.apk'',
      obb_files = [''main.123.com.example.other.obb''], split_config_files = [],
      apk = Some example_apk, manifest = None, icon = None\<rparr> = Inr mismatch_manifest"
  by (simp add: make_manifest_def make_manifest_body_def mismatch_env_def example_dir_def
      example_apk_def mismatch_manifest_def and_then_def call_def Let_def)

lemma other_token: "obb_package_name ''main.123.com.example.other.obb'' = ''com.example.other''"
  by (simp add: obb_package_name_def stem_def)

lemma mismatch_XAPK:
  "XAPK mismatch_env ''app'' =
     Inl (Exn RuntimeError
            ''Initialization: The APK and OBB files do not belong to the same app.'')"
proof -
  have apk: "APK mismatch_env (Some ''base.apk'') = Inr example_apk"
    by (simp add: mismatch_env_def example_dir_def)
  have pkg: "get_package example_apk = Inr ''com.example.app''"
    by (simp add: example_apk_def)
  from initialize_mismatch [OF mismatch_scan, of example_apk mismatch_manifest
      "''com.example.app''" "''main.123.com.example.other.obb''"]
    apk pkg mismatch_make_manifest other_token
  show ?thesis by (auto simp: XAPK_def)
qed

lemma initialize_inspect_failure:
  assumes "APK env (apk_src self1) = Inl e \<or>
           (\<exists>a e. APK env (apk_src self1) = Inr a \<and> make_manifest env (self1\<lparr>apk := Some a\<rparr>) = Inl e)"
  shows "isl (initialize_inspect env self1)"
  using assms by (auto simp: initialize_inspect_def)

lemma no_icon_scan:
  "initialize_scan no_icon_env (init_fields ''app'') =
     Inr \<lparr>folder = ''app'', apk_src = Some ''base.apk'',
          obb_files = [''main.123.com.example.app.obb''],
          split_config_files = [''config.arm64_v8a.apk''],
          apk = None, manifest = None, icon = None\<rparr>"
  by (simp add: initialize_scan_def init_fields_def no_icon_env_def example_dir_def Let_def)

lemma no_name_scan:
  "initialize_scan no_name_env (init_fields ''app'') =
     Inr \<lparr>folder = ''app'', apk_src = Some ''base.apk'',
          obb_files = [''main.123.com.example.app.obb''],
          split_config_files = [''config.arm64_v8a.apk''],
          apk = None, manifest = None, icon = None\<rparr>"
  by (simp add: initialize_scan_def init_fields_def no_name_env_def example_dir_def Let_def)

lemma no_icon_make_manifest:
  "make_manifest no_icon_env
     \<lparr>folder = ''app'', apk_src = Some ''base.apk'',
      obb_files = [''main.123.com.example.app.obb''],
      split_config_files = [''config.arm64_v8a.apk''],
      apk = Some no_icon_apk, manifest = None, icon = None\<rparr> = Inr example_manifest"
  by (simp add: make_manifest_def make_manifest_body_def no_icon_env_def example_dir_def
      no_icon_apk_def example_apk_def example_manifest_def and_then_def call_def stem_def Let_def)

lemma example_token: "obb_package_name ''main.123.com.example.app.obb'' = ''com.example.app''"
  by (simp add: obb_package_name_def stem_def)

section \<open>The manifest\<close>

text \<open>
  Claim C3. Whenever \<^verbatim>\<open>make_manifest\<close> returns a manifest, its \<^verbatim>\<open>total_size\<close> is the sum
  of the sizes \<^verbatim>\<open>stat\<close> reports: that of the base package, those of all the expansion
  files and those of all the split packages.
\<close>

theorem total_size_is_sum_of_stat_sizes:
  assumes "make_manifest env self = Inr m"
    and "apk_src self = Some base"
    and "\<forall>p\<in>set (base # obb_files self @ split_config_files self). stat env p = Inr (sz p)"
  shows "map_of m ''total_size'' =
           Some (JInt (sz base + sum_list (map sz (obb_files self)) +
                       sum_list (map sz (split_config_files self))))"
proof -
  from assms(1) have "make_manifest_body env self = Inr m"
    by (simp add: make_manifest_Inr_iff)
  from make_manifest_body_InrD [OF this] obtain src apk_size t1 obb_info pkg t2 apks cfgs rest
    where src: "apk_src self = Some src" "stat env src = Inr apk_size"
      and l1: "obb_loop env (apk self) (obb_files self) apk_size [] = Inr (t1, obb_info)"
      and l2: "split_loop env (split_config_files self) t1
                 [JDict [(''file'', JStr (pkg @ ''.apk'')), (''id'', JStr ''base'')]] [] =
               Inr (t2, apks, cfgs)"
      and m: "map_of m ''total_size'' = Some (JInt t2)"
    by (auto split: if_splits)
  from src assms(2,3) have "apk_size = sz base" by simp
  moreover from assms(3) have "\<forall>p\<in>set (obb_files self). stat env p = Inr (sz p)" by simp
  from obb_loop_total [OF l1 this] have "t1 = apk_size + sum_list (map sz (obb_files self))" .
  moreover from assms(3) have "\<forall>p\<in>set (split_config_files self). stat env p = Inr (sz p)" by simp
  from split_loop_total [OF l2 this] have "t2 = t1 + sum_list (map sz (split_config_files self))" .
  ultimately show ?thesis using m by simp
qed

theorem total_size_is_sum_of_stat_sizes_witness:
  "map_of example_manifest ''total_size'' = Some (JInt (1000 + 2000 + 300))"
  using total_size_is_sum_of_stat_sizes
    [OF example_make_manifest, of "''base.apk''"
      "\<lambda>p. if p = ''base.apk'' then 1000 else if p = ''main.123.com.example.app.obb'' then 2000 else 300"]
  by (simp add: example_self_def example_env_def example_dir_def)

text \<open>
  Claim C4. In every manifest \<^verbatim>\<open>make_manifest\<close> returns, the key \<^verbatim>\<open>split_configs\<close> is
  present exactly when there is a split package and the key \<^verbatim>\<open>expansions\<close> exactly when
  there is an expansion file; neither key is ever bound to the empty list.
\<close>

theorem optional_keys_present_iff_nonempty:
  assumes "make_manifest env self = Inr m"
  shows "(map_of m ''split_configs'' \<noteq> None \<longleftrightarrow> split_config_files self \<noteq> []) \<and>
         (map_of m ''expansions'' \<noteq> None \<longleftrightarrow> obb_files self \<noteq> []) \<and>
         map_of m ''split_configs'' \<noteq> Some (JList []) \<and>
         map_of m ''expansions'' \<noteq> Some (JList [])"
proof -
  from assms have "make_manifest_body env self = Inr m"
    by (simp add: make_manifest_Inr_iff)
  from make_manifest_body_InrD [OF this] obtain apk_size t1 obb_info a pkg t2 apks cfgs
    where l1: "obb_loop env (apk self) (obb_files self) apk_size [] = Inr (t1, obb_info)"
      and a: "apk self = Some a" "get_package a = Inr pkg"
      and l2: "split_loop env (split_config_files self) t1
                 [JDict [(''file'', JStr (pkg @ ''.apk'')), (''id'', JStr ''base'')]] [] =
               Inr (t2, apks, cfgs)"
      and sc: "map_of m ''split_configs'' = (if cfgs = [] then None else Some (JList cfgs))"
      and ex: "map_of m ''expansions'' = (if obb_info = [] then None else Some (JList obb_info))"
    by (auto split: if_splits)
  from a have "call (apk self) ''get_package'' get_package = Inr pkg"
    by (simp add: call_def)
  from obb_loop_info [OF l1 this] have "obb_info = [] \<longleftrightarrow> obb_files self = []" by simp
  moreover from split_loop_info [OF l2] have "cfgs = [] \<longleftrightarrow> split_config_files self = []" by simp
  ultimately show ?thesis using sc ex by simp
qed

theorem optional_keys_present_iff_nonempty_witness:
  "map_of example_manifest ''split_configs'' \<noteq> None \<and>
   map_of example_manifest ''expansions'' \<noteq> None \<and>
   map_of example_manifest ''split_configs'' \<noteq> Some (JList []) \<and>
   map_of example_manifest ''expansions'' \<noteq> Some (JList [])"
  using optional_keys_present_iff_nonempty [OF example_make_manifest]
  by (simp add: example_self_def)

text \<open>
  Claim C6. In every manifest \<^verbatim>\<open>make_manifest\<close> returns, \<^verbatim>\<open>split_apks\<close> starts with the
  entry whose file is the package name followed by \<^verbatim>\<open>.apk\<close> and whose id is
  \<^verbatim>\<open>base\<close>; then comes one entry per split package, in the order of
  \<^verbatim>\<open>self.split_config_files\<close>, with the file name as file and its stem as id.
\<close>

theorem split_apks_base_then_splits:
  assumes "make_manifest env self = Inr m"
  shows "\<exists>a pkg. apk self = Some a \<and> get_package a = Inr pkg \<and>
           map_of m ''split_apks'' =
             Some (JList (JDict [(''file'', JStr (pkg @ ''.apk'')), (''id'', JStr ''base'')] #
                          map (\<lambda>f. JDict [(''file'', JStr f), (''id'', JStr (stem f))])
                            (split_config_files self)))"
proof -
  from assms have "make_manifest_body env self = Inr m"
    by (simp add: make_manifest_Inr_iff)
  from make_manifest_body_InrD [OF this] obtain a pkg t1 t2 apks cfgs
    where a: "apk self = Some a" "get_package a = Inr pkg"
      and l2: "split_loop env (split_config_files self) t1
                 [JDict [(''file'', JStr (pkg @ ''.apk'')), (''id'', JStr ''base'')]] [] =
               Inr (t2, apks, cfgs)"
      and sa: "map_of m ''split_apks'' = Some (JList apks)"
    by (auto split: if_splits)
  from split_loop_info [OF l2] sa a show ?thesis by simp
qed

theorem split_apks_base_then_splits_witness:
  "map_of example_manifest ''split_apks'' =
     Some (JList [JDict [(''file'', JStr ''com.example.app.apk''), (''id'', JStr ''base'')],
                  JDict [(''file'', JStr ''config.arm64_v8a.apk''),
                         (''id'', JStr ''config.arm64_v8a'')]])"
  using split_apks_base_then_splits [OF example_make_manifest]
  by (simp add: example_self_def example_apk_def stem_def)

text \<open>
  Claim C7. In every manifest \<^verbatim>\<open>make_manifest\<close> returns for a non-empty list of expansion
  files, \<^verbatim>\<open>expansions\<close> holds one descriptor per file, in order, whose
  \<^verbatim>\<open>install_location\<close> is \<^verbatim>\<open>EXTERNAL_STORAGE\<close> and whose \<^verbatim>\<open>file\<close> and
  \<^verbatim>\<open>install_path\<close> are both \<^verbatim>\<open>Android/obb/\<close>, the package name, a slash and the
  file name.
\<close>

theorem expansion_descriptors:
  assumes "make_manifest env self = Inr m" and "obb_files self \<noteq> []"
  shows "\<exists>a pkg. apk self = Some a \<and> get_package a = Inr pkg \<and>
           map_of m ''expansions'' =
             Some (JList (map (\<lambda>f. JDict
                     [(''file'', JStr (''Android/obb/'' @ pkg @ ''/'' @ f)),
                      (''install_location'', JStr ''EXTERNAL_STORAGE''),
                      (''install_path'', JStr (''Android/obb/'' @ pkg @ ''/'' @ f))])
                   (obb_files self)))"
proof -
  from assms(1) have "make_manifest_body env self = Inr m"
    by (simp add: make_manifest_Inr_iff)
  from make_manifest_body_InrD [OF this] obtain apk_size t1 obb_info a pkg
    where l1: "obb_loop env (apk self) (obb_files self) apk_size [] = Inr (t1, obb_info)"
      and a: "apk self = Some a" "get_package a = Inr pkg"
      and ex: "map_of m ''expansions'' = (if obb_info = [] then None else Some (JList obb_info))"
    by (auto split: if_splits)
  from a have "call (apk self) ''get_package'' get_package = Inr pkg"
    by (simp add: call_def)
  from obb_loop_info [OF l1 this] assms(2) ex a show ?thesis by simp
qed

theorem expansion_descriptors_witness:
  "map_of example_manifest ''expansions'' =
     Some (JList [JDict
       [(''file'', JStr ''Android/obb/com.example.app/main.123.com.example.app.obb''),
        (''install_location'', JStr ''EXTERNAL_STORAGE''),
        (''install_path'', JStr ''Android/obb/com.example.app/main.123.com.example.app.obb'')]])"
  using expansion_descriptors [OF example_make_manifest]
  by (simp add: example_self_def example_apk_def)

section \<open>Identity verification\<close>

text \<open>
  Claim C1 says that the verification comes before the manifest is made. In
  \<^verbatim>\<open>initialize\<close> it is the other way round: line 40 makes and stores the manifest, lines
  47 to 51 verify. With an expansion file of another application, \<^verbatim>\<open>initialize\<close> raises
  the mismatch and leaves the manifest it has built in \<^verbatim>\<open>self.manifest\<close>; and when that
  file cannot be stat-ed, the exception the caller sees is the one of \<^verbatim>\<open>make_manifest\<close>,
  not the mismatch.
\<close>

theorem manifest_is_built_before_verification:
  "initialize mismatch_env (init_fields ''app'') =
     Inl (Exn RuntimeError
            ''Initialization: The APK and OBB files do not belong to the same app.'',
          \<lparr>folder = ''app'', apk_src = Some ''base.apk'',
           obb_files = [''main.123.com.example.other.obb''], split_config_files = [],
           apk = Some example_apk, manifest = Some mismatch_manifest, icon = Some ''PNG''\<rparr>) \<and>
   XAPK broken_obb_env ''app'' =
     Inl (Exn RuntimeError
            ''Initialization: Manifest creation: [Errno 2] No such file or directory'')"
proof -
  have apk: "APK mismatch_env (Some ''base.apk'') = Inr example_apk"
    by (simp add: mismatch_env_def example_dir_def)
  have pkg: "get_package example_apk = Inr ''com.example.app''"
    and icon: "and_then (get_app_icon example_apk 65534) (get_file example_apk) = Inr ''PNG''"
    by (simp_all add: example_apk_def and_then_def)
  have "initialize_inspect mismatch_env
     \<lparr>folder = ''app'', apk_src = Some ''base.apk'',
          obb_files = [''main.123.com.example.other.obb''], split_config_files = [],
          apk = None, manifest = None, icon = None\<rparr> =
     Inl (Exn ValueError ''The APK and OBB files do not belong to the same app.'',
          \<lparr>folder = ''app'', apk_src = Some ''base.apk'',
           obb_files = [''main.123.com.example.other.obb''], split_config_files = [],
           apk = Some example_apk, manifest = Some mismatch_manifest, icon = Some ''PNG''\<rparr>)"
    by (subst initialize_inspect_verified [where a = example_apk and m = mismatch_manifest
          and pkg = "''com.example.app''"])
       (simp_all add: apk pkg icon mismatch_make_manifest other_token)
  then have one: "initialize mismatch_env (init_fields ''app'') =
     Inl (Exn RuntimeError
            ''Initialization: The APK and OBB files do not belong to the same app.'',
          \<lparr>folder = ''app'', apk_src = Some ''base.apk'',
           obb_files = [''main.123.com.example.other.obb''], split_config_files = [],
           apk = Some example_apk, manifest = Some mismatch_manifest, icon = Some ''PNG''\<rparr>)"
    by (simp add: initialize_after_scan [OF mismatch_scan])
  have scan: "initialize_scan broken_obb_env (init_fields ''app'') =
     Inr \<lparr>folder = ''app'', apk_src = Some ''base.apk'',
          obb_files = [''main.123.com.example.other.obb''], split_config_files = [],
          apk = None, manifest = None, icon = None\<rparr>"
    by (simp add: initialize_scan_def init_fields_def broken_obb_env_def mismatch_env_def
        example_dir_def Let_def)
  have "make_manifest broken_obb_env
     \<lparr>folder = ''app'', apk_src = Some ''base.apk'',
      obb_files = [''main.123.com.example.other.obb''], split_config_files = [],
      apk = Some example_apk, manifest = None, icon = None\<rparr> =
      Inl (Exn RuntimeError ''Manifest creation: [Errno 2] No such file or directory'')"
    by (simp add: make_manifest_def make_manifest_body_def broken_obb_env_def mismatch_env_def
        example_dir_def and_then_def)
  then have "initialize_inspect broken_obb_env
     \<lparr>folder = ''app'', apk_src = Some ''base.apk'',
          obb_files = [''main.123.com.example.other.obb''], split_config_files = [],
          apk = None, manifest = None, icon = None\<rparr> =
     Inl (Exn RuntimeError ''Manifest creation: [Errno 2] No such file or directory'',
          \<lparr>folder = ''app'', apk_src = Some ''base.apk'',
           obb_files = [''main.123.com.example.other.obb''], split_config_files = [],
           apk = Some example_apk, manifest = None, icon = None\<rparr>)"
    by (simp add: initialize_inspect_def broken_obb_env_def mismatch_env_def example_dir_def)
  then have two: "XAPK broken_obb_env ''app'' =
     Inl (Exn RuntimeError
            ''Initialization: Manifest creation: [Errno 2] No such file or directory'')"
    by (simp add: XAPK_def initialize_after_scan [OF scan])
  from one two show ?thesis by (rule conjI)
qed


text \<open>
  Claim C1, as the code has it. If the token of some expansion file differs from the
  package name, the build fails: the constructor raises and returns no object. The
  manifest is made before the verification: when the scan, the opening of the package
  and \<^verbatim>\<open>make_manifest\<close> succeed, \<^verbatim>\<open>initialize\<close> raises the mismatch and
  \<^verbatim>\<open>self.manifest\<close> holds the manifest \<^verbatim>\<open>make_manifest\<close> returned.
\<close>

theorem mismatch_fails_build_after_manifest:
  assumes "f \<in> set (glob env ''*.obb'')"
    and "\<forall>src a pkg. src \<in> set (glob env ''base.apk'') \<longrightarrow> APK env (Some src) = Inr a \<longrightarrow>
           get_package a = Inr pkg \<longrightarrow> obb_package_name f \<noteq> pkg"
  shows "(\<exists>e. XAPK env fld = Inl e) \<and>
         (\<forall>self1 a m. initialize_scan env (init_fields fld) = Inr self1 \<longrightarrow>
            APK env (apk_src self1) = Inr a \<longrightarrow>
            make_manifest env (self1\<lparr>apk := Some a\<rparr>) = Inr m \<longrightarrow>
            (\<exists>self'. initialize env (init_fields fld) =
               Inl (Exn RuntimeError
                      ''Initialization: The APK and OBB files do not belong to the same app.'',
                    self') \<and>
               manifest self' = Some m))"
proof -
  have built: "\<exists>self'. initialize env (init_fields fld) =
               Inl (Exn RuntimeError
                      ''Initialization: The APK and OBB files do not belong to the same app.'',
                    self') \<and>
               manifest self' = Some m"
    if scan: "initialize_scan env (init_fields fld) = Inr self1"
      and a: "APK env (apk_src self1) = Inr a"
      and m: "make_manifest env (self1\<lparr>apk := Some a\<rparr>) = Inr m"
    for self1 a m
  proof -
    note scanned = initialize_scan_InrD [OF scan]
    from scanned have obbs: "obb_files self1 = glob env ''*.obb''"
      by (simp add: init_fields_def)
    from scanned have src: "apk_src self1 = fold (\<lambda>x src. Some x) (glob env ''base.apk'') None"
      by (simp add: init_fields_def)
    from scanned have some: "apk_src self1 \<noteq> None"
      by blast
    from src some have base: "glob env ''base.apk'' \<noteq> []"
      and last: "apk_src self1 = Some (last (glob env ''base.apk''))"
      by (auto simp: fold_last_Some split: if_splits)
    from make_manifest_package [OF m] obtain pkg where pkg: "get_package a = Inr pkg"
      by auto
    from base have "last (glob env ''base.apk'') \<in> set (glob env ''base.apk'')" by simp
    with assms(2) a last pkg have "obb_package_name f \<noteq> pkg" by simp
    moreover from assms(1) obbs have "f \<in> set (obb_files self1)" by simp
    ultimately show ?thesis
      using initialize_mismatch [OF scan a m pkg] by blast
  qed
  have "\<exists>e self'. initialize env (init_fields fld) = Inl (e, self')"
  proof (cases "initialize_scan env (init_fields fld)")
    case (Inl failure)
    then show ?thesis
      by (cases failure) (simp add: initialize_scan_failure)
  next
    case (Inr self1)
    show ?thesis
    proof (cases "APK env (apk_src self1)")
      case (Inl e)
      then show ?thesis
        by (simp add: initialize_after_scan [OF Inr] initialize_inspect_def)
    next
      case a: (Inr a)
      show ?thesis
      proof (cases "make_manifest env (self1\<lparr>apk := Some a\<rparr>)")
        case (Inl e)
        with a show ?thesis
          by (simp add: initialize_after_scan [OF Inr] initialize_inspect_def)
      next
        case m: (Inr m)
        from built [OF Inr a m] show ?thesis by blast
      qed
    qed
  qed
  then have "\<exists>e. XAPK env fld = Inl e"
    by (auto simp: XAPK_def)
  with built show ?thesis by blast
qed

theorem mismatch_fails_build_after_manifest_witness:
  "(\<exists>e. XAPK mismatch_env ''app'' = Inl e) \<and>
   (\<exists>self'. initialize mismatch_env (init_fields ''app'') =
      Inl (Exn RuntimeError
             ''Initialization: The APK and OBB files do not belong to the same app.'', self') \<and>
      manifest self' = Some mismatch_manifest)"
proof -
  have f: "''main.123.com.example.other.obb'' \<in> set (glob mismatch_env ''*.obb'')"
    by (simp add: mismatch_env_def example_dir_def)
  have other: "\<forall>src a pkg. src \<in> set (glob mismatch_env ''base.apk'') \<longrightarrow>
      APK mismatch_env (Some src) = Inr a \<longrightarrow> get_package a = Inr pkg \<longrightarrow>
      obb_package_name ''main.123.com.example.other.obb'' \<noteq> pkg"
    by (auto simp: mismatch_env_def example_dir_def example_apk_def other_token)
  have apk: "APK mismatch_env (Some ''base.apk'') = Inr example_apk"
    by (simp add: mismatch_env_def example_dir_def)
  from mismatch_fails_build_after_manifest [OF f other, of "''app''"]
    mismatch_scan apk mismatch_make_manifest
  show ?thesis by simp
qed

text \<open>
  Claim C2. The token of an expansion file is made of the segments of its stem (the
  file name without its extension) after the first two, joined with dots, whichever
  way the loop of lines 48 to 51 indexes the files. The loop raises exactly when the
  token of some file differs from the package name, and once the manifest has been made
  \<^verbatim>\<open>initialize\<close> fails exactly when there is such a file: one of them is enough.
\<close>

theorem verification_fails_iff_some_token_differs:
  "verify_loop obbs pkg [0..<length obbs] =
     (if \<forall>f\<in>set obbs. str_join ''.'' (drop 2 (str_split (CHR ''.'') (stem f))) = pkg
      then Inr ()
      else Inl (Exn ValueError ''The APK and OBB files do not belong to the same app.'')) \<and>
   (initialize_scan env self = Inr self1 \<and> APK env (apk_src self1) = Inr a \<and>
    make_manifest env (self1\<lparr>apk := Some a\<rparr>) = Inr m \<and> get_package a = Inr name \<longrightarrow>
      (isl (initialize env self) \<longleftrightarrow>
         (\<exists>f\<in>set (obb_files self1).
            str_join ''.'' (drop 2 (str_split (CHR ''.'') (stem f))) \<noteq> name)))"
proof (intro conjI impI)
  show "verify_loop obbs pkg [0..<length obbs] =
     (if \<forall>f\<in>set obbs. str_join ''.'' (drop 2 (str_split (CHR ''.'') (stem f))) = pkg
      then Inr ()
      else Inl (Exn ValueError ''The APK and OBB files do not belong to the same app.''))"
    using verify_loop_all [of obbs pkg] by (simp add: obb_package_name_def)
next
  assume h: "initialize_scan env self = Inr self1 \<and> APK env (apk_src self1) = Inr a \<and>
    make_manifest env (self1\<lparr>apk := Some a\<rparr>) = Inr m \<and> get_package a = Inr name"
  then have scan: "initialize_scan env self = Inr self1"
    and a: "APK env (apk_src self1) = Inr a"
    and m: "make_manifest env (self1\<lparr>apk := Some a\<rparr>) = Inr m"
    and name: "get_package a = Inr name"
    by simp_all
  from initialize_inspect_verified [OF a m name] initialize_after_scan [OF scan]
  have "isl (initialize env self) \<longleftrightarrow> \<not> (\<forall>f\<in>set (obb_files self1). obb_package_name f = name)"
    by (simp add: Let_def)
  then show "isl (initialize env self) \<longleftrightarrow>
         (\<exists>f\<in>set (obb_files self1).
            str_join ''.'' (drop 2 (str_split (CHR ''.'') (stem f))) \<noteq> name)"
    by (simp add: obb_package_name_def)
qed

theorem verification_fails_iff_some_token_differs_witness:
  "verify_loop [''main.123.com.example.app.obb'', ''patch.123.com.example.other.obb'']
     ''com.example.app'' [0, 1] =
     Inl (Exn ValueError ''The APK and OBB files do not belong to the same app.'') \<and>
   isl (initialize mismatch_env (init_fields ''app''))"
proof -
  have apk: "APK mismatch_env (Some ''base.apk'') = Inr example_apk"
    by (simp add: mismatch_env_def example_dir_def)
  have pkg: "get_package example_apk = Inr ''com.example.app''"
    by (simp add: example_apk_def)
  from verification_fails_iff_some_token_differs
    [of "[''main.123.com.example.app.obb'', ''patch.123.com.example.other.obb'']"
      "''com.example.app''" mismatch_env "init_fields ''app''"
      "\<lparr>folder = ''app'', apk_src = Some ''base.apk'',
        obb_files = [''main.123.com.example.other.obb''], split_config_files = [],
        apk = None, manifest = None, icon = None\<rparr>"
      example_apk mismatch_manifest "''com.example.app''"]
    mismatch_scan apk pkg mismatch_make_manifest
  show ?thesis by (simp add: stem_def)
qed

text \<open>
  Claim C5 says that the error of a failed verification names the offending file. The
  exception of line 51 has a constant text; at the directory with the expansion file of
  another application, the text the caller gets does not contain the file name.
\<close>

theorem mismatch_error_does_not_name_the_file:
  "XAPK mismatch_env ''app'' =
     Inl (Exn RuntimeError
            ''Initialization: The APK and OBB files do not belong to the same app.'') \<and>
   obb_package_name ''main.123.com.example.other.obb'' \<noteq> ''com.example.app'' \<and>
   \<not> sublist ''main.123.com.example.other.obb''
       ''Initialization: The APK and OBB files do not belong to the same app.''"
  by (simp add: mismatch_XAPK other_token sublist_code)

text \<open>
  Claim C5, as the code has it. When the verification fails, the loop raises the
  \<^verbatim>\<open>ValueError\<close> with the text of line 51 and \<^verbatim>\<open>initialize\<close> raises a \<^verbatim>\<open>RuntimeError\<close>
  with that text after the stage label, the same for every offending file.
\<close>

theorem mismatch_error_is_one_fixed_message:
  assumes "initialize_scan env self = Inr self1"
    and "APK env (apk_src self1) = Inr a"
    and "make_manifest env (self1\<lparr>apk := Some a\<rparr>) = Inr m"
    and "get_package a = Inr pkg"
    and "f \<in> set (obb_files self1)" and "obb_package_name f \<noteq> pkg"
  shows "verify_loop (obb_files self1) pkg [0..<length (obb_files self1)] =
           Inl (Exn ValueError ''The APK and OBB files do not belong to the same app.'') \<and>
         (\<exists>self'. initialize env self =
            Inl (Exn RuntimeError
                   ''Initialization: The APK and OBB files do not belong to the same app.'',
                 self'))"
proof -
  from assms(5,6) have "\<not> (\<forall>f\<in>set (obb_files self1). obb_package_name f = pkg)" by blast
  then have "verify_loop (obb_files self1) pkg [0..<length (obb_files self1)] =
           Inl (Exn ValueError ''The APK and OBB files do not belong to the same app.'')"
    by (simp add: verify_loop_all)
  moreover from initialize_mismatch [OF assms]
  have "\<exists>self'. initialize env self =
            Inl (Exn RuntimeError
                   ''Initialization: The APK and OBB files do not belong to the same app.'',
                 self')" by blast
  ultimately show ?thesis by (rule conjI)
qed

theorem mismatch_error_is_one_fixed_message_witness:
  "verify_loop [''main.123.com.example.other.obb''] ''com.example.app'' [0..<1] =
     Inl (Exn ValueError ''The APK and OBB files do not belong to the same app.'') \<and>
   (\<exists>self'. initialize mismatch_env (init_fields ''app'') =
      Inl (Exn RuntimeError
             ''Initialization: The APK and OBB files do not belong to the same app.'', self'))"
proof -
  have apk: "APK mismatch_env (Some ''base.apk'') = Inr example_apk"
    by (simp add: mismatch_env_def example_dir_def)
  have pkg: "get_package example_apk = Inr ''com.example.app''"
    by (simp add: example_apk_def)
  from mismatch_error_is_one_fixed_message [OF mismatch_scan, of example_apk mismatch_manifest
      "''com.example.app''" "''main.123.com.example.other.obb''"]
    apk pkg mismatch_make_manifest other_token
  show ?thesis by simp
qed


text \<open>
  Claim C10. When the stem of an expansion file has at most two segments, its token is
  the empty string; so with a package name that is not empty, a list that holds such a
  file fails the verification with the exception of line 51, the one of any mismatch.
\<close>

theorem malformed_name_gives_empty_token:
  assumes "length (str_split (CHR ''.'') (stem obb)) \<le> 2"
  shows "obb_package_name obb = [] \<and>
         (pkg \<noteq> [] \<longrightarrow> obb \<in> set obbs \<longrightarrow>
            verify_loop obbs pkg [0..<length obbs] =
              Inl (Exn ValueError ''The APK and OBB files do not belong to the same app.''))"
proof -
  from assms have empty: "obb_package_name obb = []"
    by (simp add: obb_package_name_def)
  then have "pkg \<noteq> [] \<Longrightarrow> obb \<in> set obbs \<Longrightarrow>
      \<not> (\<forall>f\<in>set obbs. obb_package_name f = pkg)"
    by auto
  with empty show ?thesis
    by (auto simp: verify_loop_all)
qed

theorem malformed_name_gives_empty_token_witness:
  "obb_package_name ''main.obb'' = [] \<and>
   verify_loop [''main.obb''] ''com.example.app'' [0..<1] =
     Inl (Exn ValueError ''The APK and OBB files do not belong to the same app.'')"
proof -
  have h: "length (str_split (CHR ''.'') (stem ''main.obb'')) \<le> 2"
    by (simp add: stem_def)
  from malformed_name_gives_empty_token [OF h, of "''com.example.app''" "[''main.obb'']"]
  show ?thesis by simp
qed

section \<open>Failures of the scan and of the collaborators\<close>

text \<open>
  Claim C8. In a directory with \<^verbatim>\<open>base.apk\<close> and no file of the three other patterns, the
  build fails with the error of line 37 under the stage label. Nothing has been
  inspected: the result is the same whatever \<^verbatim>\<open>APK\<close> would do, and \<^verbatim>\<open>self.apk\<close> and
  \<^verbatim>\<open>self.manifest\<close> are still \<^verbatim>\<open>None\<close>.
\<close>

theorem bare_base_package_fails_before_inspection:
  assumes "is_dir env" and "glob env ''base.apk'' \<noteq> []" and "glob env ''*.obb'' = []"
    and "glob env ''config.*.apk'' = []" and "glob env ''asset.*.apk'' = []"
  shows "XAPK (env\<lparr>APK := inspect\<rparr>) fld =
           Inl (Exn RuntimeError
                  ''Initialization: No OBB and split files found in the specified directory.'') \<and>
         (\<exists>self'. initialize (env\<lparr>APK := inspect\<rparr>) (init_fields fld) =
            Inl (Exn RuntimeError
                   ''Initialization: No OBB and split files found in the specified directory.'',
                 self') \<and>
            apk self' = None \<and> manifest self' = None)"
proof -
  from assms(2) have "fold (\<lambda>x src. Some x) (glob env ''base.apk'') None \<noteq> None"
    by (simp add: fold_last_Some)
  with assms have "\<exists>self'. initialize_scan (env\<lparr>APK := inspect\<rparr>) (init_fields fld) =
      Inl (Exn FileNotFoundError ''No OBB and split files found in the specified directory.'',
           self') \<and> apk self' = None \<and> manifest self' = None"
    by (simp add: initialize_scan_def init_fields_def Let_def)
  then obtain self' where
    "initialize_scan (env\<lparr>APK := inspect\<rparr>) (init_fields fld) =
      Inl (Exn FileNotFoundError ''No OBB and split files found in the specified directory.'',
           self')" and "apk self' = None" and "manifest self' = None"
    by blast
  then show ?thesis
    by (simp add: XAPK_def initialize_scan_failure)
qed

theorem bare_base_package_fails_before_inspection_witness:
  "XAPK (bare_env\<lparr>APK := (\<lambda>p. Inl (Exn OtherError ''unreadable''))\<rparr>) ''app'' =
     Inl (Exn RuntimeError
            ''Initialization: No OBB and split files found in the specified directory.'') \<and>
   XAPK bare_env ''app'' =
     Inl (Exn RuntimeError
            ''Initialization: No OBB and split files found in the specified directory.'')"
proof -
  have h: "is_dir bare_env" "glob bare_env ''base.apk'' \<noteq> []" "glob bare_env ''*.obb'' = []"
    "glob bare_env ''config.*.apk'' = []" "glob bare_env ''asset.*.apk'' = []"
    by (simp_all add: bare_env_def example_dir_def)
  from bare_base_package_fails_before_inspection [OF h, of "\<lambda>p. Inl (Exn OtherError ''unreadable'')" "''app''"]
    bare_base_package_fails_before_inspection [OF h, of "APK bare_env" "''app''"]
  show ?thesis by simp
qed

text \<open>
  Claim C9. After a successful scan, an exception of the icon query (of
  \<^verbatim>\<open>get_app_icon\<close> or of \<^verbatim>\<open>get_file\<close>) does not abort: \<^verbatim>\<open>initialize\<close> goes on to the
  verification, whose outcome is the result, and \<^verbatim>\<open>self.icon\<close> keeps the value it had.
  An exception of \<^verbatim>\<open>APK\<close> or of any of the seven other queries makes \<^verbatim>\<open>initialize\<close>
  fail.
\<close>

theorem icon_failure_is_skipped_other_failures_abort:
  assumes "initialize_scan env self = Inr self1"
  shows "(APK env (apk_src self1) = Inr a \<and> make_manifest env (self1\<lparr>apk := Some a\<rparr>) = Inr m \<and>
          get_package a = Inr pkg \<and> and_then (get_app_icon a 65534) (get_file a) = Inl e \<longrightarrow>
            initialize env self =
              (if \<forall>f\<in>set (obb_files self1). obb_package_name f = pkg
               then Inr (self1\<lparr>apk := Some a, manifest := Some m\<rparr>)
               else Inl (Exn RuntimeError
                           ''Initialization: The APK and OBB files do not belong to the same app.'',
                         self1\<lparr>apk := Some a, manifest := Some m\<rparr>))) \<and>
         (isl (APK env (apk_src self1)) \<or>
          (\<exists>b. APK env (apk_src self1) = Inr b \<and>
             (isl (get_package b) \<or> isl (get_app_name b) \<or> isl (get_androidversion_code b) \<or>
              isl (get_androidversion_name b) \<or> isl (get_min_sdk_version b) \<or>
              isl (get_target_sdk_version b) \<or> isl (get_permissions b))) \<longrightarrow>
            isl (initialize env self))"
proof (intro conjI impI)
  assume h: "APK env (apk_src self1) = Inr a \<and> make_manifest env (self1\<lparr>apk := Some a\<rparr>) = Inr m \<and>
          get_package a = Inr pkg \<and> and_then (get_app_icon a 65534) (get_file a) = Inl e"
  then have a: "APK env (apk_src self1) = Inr a"
    and m: "make_manifest env (self1\<lparr>apk := Some a\<rparr>) = Inr m"
    and pkg: "get_package a = Inr pkg"
    and icon: "and_then (get_app_icon a 65534) (get_file a) = Inl e"
    by simp_all
  from initialize_inspect_verified [OF a m pkg] icon initialize_after_scan [OF assms]
  show "initialize env self =
              (if \<forall>f\<in>set (obb_files self1). obb_package_name f = pkg
               then Inr (self1\<lparr>apk := Some a, manifest := Some m\<rparr>)
               else Inl (Exn RuntimeError
                           ''Initialization: The APK and OBB files do not belong to the same app.'',
                         self1\<lparr>apk := Some a, manifest := Some m\<rparr>))"
    by (simp add: Let_def)
next
  assume h: "isl (APK env (apk_src self1)) \<or>
          (\<exists>b. APK env (apk_src self1) = Inr b \<and>
             (isl (get_package b) \<or> isl (get_app_name b) \<or> isl (get_androidversion_code b) \<or>
              isl (get_androidversion_name b) \<or> isl (get_min_sdk_version b) \<or>
              isl (get_target_sdk_version b) \<or> isl (get_permissions b)))"
  have "isl (initialize_inspect env self1)"
  proof (cases "APK env (apk_src self1)")
    case (Inl e')
    then show ?thesis by (simp add: initialize_inspect_failure)
  next
    case (Inr b)
    with h have q: "isl (get_package b) \<or> isl (get_app_name b) \<or> isl (get_androidversion_code b) \<or>
              isl (get_androidversion_name b) \<or> isl (get_min_sdk_version b) \<or>
              isl (get_target_sdk_version b) \<or> isl (get_permissions b)"
      by simp
    have "\<exists>e'. make_manifest env (self1\<lparr>apk := Some b\<rparr>) = Inl e'"
    proof (cases "make_manifest env (self1\<lparr>apk := Some b\<rparr>)")
      case (Inl e')
      then show ?thesis by simp
    next
      case made: (Inr m')
      from make_manifest_queries [OF made, of b] q show ?thesis by simp
    qed
    with Inr show ?thesis by (auto simp: initialize_inspect_failure)
  qed
  with initialize_after_scan [OF assms] show "isl (initialize env self)"
    by (auto simp: isl_def)
qed

theorem icon_failure_is_skipped_other_failures_abort_witness:
  "initialize no_icon_env (init_fields ''app'') =
     Inr \<lparr>folder = ''app'', apk_src = Some ''base.apk'',
          obb_files = [''main.123.com.example.app.obb''],
          split_config_files = [''config.arm64_v8a.apk''],
          apk = Some no_icon_apk, manifest = Some example_manifest, icon = None\<rparr> \<and>
   isl (initialize no_name_env (init_fields ''app''))"
proof -
  have apk: "APK no_icon_env (Some ''base.apk'') = Inr no_icon_apk"
    by (simp add: no_icon_env_def example_dir_def)
  have pkg: "get_package no_icon_apk = Inr ''com.example.app''"
    and icon: "and_then (get_app_icon no_icon_apk 65534) (get_file no_icon_apk) =
                 Inl (Exn OtherError ''res/icon.png'')"
    by (simp_all add: no_icon_apk_def example_apk_def and_then_def)
  have apk': "APK no_name_env (Some ''base.apk'') = Inr no_name_apk"
    by (simp add: no_name_env_def example_dir_def)
  have name: "isl (get_app_name no_name_apk)"
    by (simp add: no_name_apk_def)
  from icon_failure_is_skipped_other_failures_abort [OF no_icon_scan, of no_icon_apk
      example_manifest "''com.example.app''" "Exn OtherError ''res/icon.png''"]
    apk pkg icon no_icon_make_manifest example_token
  have one: "initialize no_icon_env (init_fields ''app'') =
     Inr \<lparr>folder = ''app'', apk_src = Some ''base.apk'',
          obb_files = [''main.123.com.example.app.obb''],
          split_config_files = [''config.arm64_v8a.apk''],
          apk = Some no_icon_apk, manifest = Some example_manifest, icon = None\<rparr>"
    by simp
  from icon_failure_is_skipped_other_failures_abort [OF no_name_scan] apk' name
  have two: "isl (initialize no_name_env (init_fields ''app''))"
    by simp
  from one two show ?thesis by (rule conjI)
qed

end
